theory Spec2Isabelle
  imports Complex_Main "HOL-Library.Word"
begin

section \<open>Values, errors and the outside world\<close>

text \<open>
  The server of \<^verbatim>\<open>src/index.py\<close> keeps one dictionary, \<^verbatim>\<open>user_tokens\<close>, and
  talks to the remote service over HTTP. The embedding passes the process state
  explicitly (\<open>world\<close>) and takes everything the process does not control (the
  remote's replies, the clock, the random bytes) from an environment (\<open>env\<close>).
\<close>

text \<open>
  A Python float: a double that is finite (its exact value, a rational), an infinity
  or not a number. The sign of zero is not kept: no operation below tells the two
  zeros apart.
\<close>

datatype pyfloat = Finite rat | PosInf | NegInf | NaN

text \<open>
  A parsed JSON document, as \<^verbatim>\<open>response.json()\<close> builds it: Python's parser reads
  a number without fraction or exponent as an unbounded integer, any other number as a
  float, and accepts \<^verbatim>\<open>NaN\<close>, \<^verbatim>\<open>Infinity\<close> and \<^verbatim>\<open>-Infinity\<close>. An object is kept as
  the list of its members, whose keys are distinct in a parsed document; \<open>map_of\<close>
  reads a key.
\<close>

datatype json =
    JNull
  | JBool bool
  | JInt int
  | JFloat pyfloat
  | JStr string
  | JArr "json list"
  | JObj "(string \<times> json) list"

text \<open>
  An f-string whose interpolated values are untyped (\<^verbatim>\<open>Any\<close>): its literal pieces
  and the values that Python's \<^verbatim>\<open>str()\<close> renders between them, in order.
\<close>

datatype fpart = Text string | Hole json

type_synonym fstring = "fpart list"

text \<open>
  The exceptions that can leave the functions below. \<open>ToolError\<close> and
  \<open>Exception\<close> are raised by the source itself; the others are raised by the
  operations it applies to unchecked data (\<^verbatim>\<open>d[k]\<close>, \<^verbatim>\<open>d.get\<close>, \<^verbatim>\<open>+\<close>,
  \<^verbatim>\<open>response.json()\<close>) and by the HTTP client when no response arrives.
\<close>

datatype error =
    ToolError string
  | Exception fstring
  | KeyError string
  | TypeError
  | OverflowError
  | AttributeError
  | JSONDecodeError
  | HTTPError

record request =
  req_method :: string
  req_url :: string
  req_headers :: "(string \<times> fstring) list"
  req_content :: "(string \<times> json) list option"
    \<comment> \<open>the dictionary handed to \<^verbatim>\<open>urlencode\<close>, when the request has a body\<close>

record response =
  status_code :: int
  body :: "json option"
    \<comment> \<open>\<open>None\<close>: the content is not JSON, so \<^verbatim>\<open>response.json()\<close> raises\<close>

text \<open>One entry of \<^verbatim>\<open>user_tokens\<close> (lines 200-206).\<close>

record session =
  accessToken :: json
  refreshToken :: json
  expiresAt :: pyfloat
  clientId :: json
  clientSecret :: json

record credentials =
  cred_clientId :: json
  cred_clientSecret :: json

record tokens =
  tok_accessToken :: json
  tok_refreshToken :: json
  tok_expiresIn :: json

record env =
  clock :: "nat \<Rightarrow> rat"
    \<comment> \<open>the value of the k-th call of \<^verbatim>\<open>time.time()\<close>\<close>
  remote :: "request list \<Rightarrow> request \<Rightarrow> response option"
    \<comment> \<open>the reply to a request, given the requests sent before it; \<open>None\<close>: no reply\<close>
  entropy :: "nat \<Rightarrow> 8 word"
    \<comment> \<open>the k-th byte handed out by \<^verbatim>\<open>os.urandom\<close>\<close>

record world =
  user_tokens :: "string \<rightharpoonup> session"
  sent :: "request list"
    \<comment> \<open>every HTTP request issued so far, oldest first\<close>
  clock_reads :: nat
  bytes_drawn :: nat

definition time_time :: "env \<Rightarrow> world \<Rightarrow> rat \<times> world" where
  "time_time e w = (clock e (clock_reads w), w\<lparr>clock_reads := Suc (clock_reads w)\<rparr>)"

definition os_urandom :: "env \<Rightarrow> nat \<Rightarrow> world \<Rightarrow> 8 word list \<times> world" where
  "os_urandom e n w =
     (map (entropy e) [bytes_drawn w ..< bytes_drawn w + n],
      w\<lparr>bytes_drawn := bytes_drawn w + n\<rparr>)"

definition http_send :: "env \<Rightarrow> request \<Rightarrow> world \<Rightarrow> response option \<times> world" where
  "http_send e r w = (remote e (sent w) r, w\<lparr>sent := sent w @ [r]\<rparr>)"

subsection \<open>Python operations on unchecked data\<close>

definition response_json :: "response \<Rightarrow> error + json" where
  "response_json r = (case body r of None \<Rightarrow> Inl JSONDecodeError | Some j \<Rightarrow> Inr j)"

text \<open>\<^verbatim>\<open>data[k]\<close> with a string key: only a dict can answer it.\<close>

fun subscript :: "json \<Rightarrow> string \<Rightarrow> error + json" where
  "subscript (JObj kvs) k = (case map_of kvs k of None \<Rightarrow> Inl (KeyError k) | Some v \<Rightarrow> Inr v)"
| "subscript _ k = Inl TypeError"

text \<open>\<^verbatim>\<open>data.get(k, default)\<close>: only a dict has the method.\<close>

fun dict_get :: "json \<Rightarrow> string \<Rightarrow> json \<Rightarrow> error + json" where
  "dict_get (JObj kvs) k d = Inr (case map_of kvs k of None \<Rightarrow> d | Some v \<Rightarrow> v)"
| "dict_get _ k d = Inl AttributeError"

subsection \<open>Float arithmetic\<close>

text \<open>
  The number of binary digits of a positive integer (\<^verbatim>\<open>int.bit_length\<close>), and from it
  the binary exponent of a positive rational \<open>x\<close>: the \<open>e\<close> with
  \<open>2 ^ e \<le> x < 2 ^ (e + 1)\<close>.
\<close>

function bit_length :: "int \<Rightarrow> nat" where
  "bit_length n = (if n \<le> 0 then 0 else Suc (bit_length (n div 2)))"
  by pat_completeness auto
termination
  by (relation "measure nat") auto

declare bit_length.simps [simp del]

definition ilog2 :: "rat \<Rightarrow> int" where
  "ilog2 x = (if 1 \<le> x then int (bit_length \<lfloor>x\<rfloor>) - 1
              else - int (bit_length (\<lceil>1 / x\<rceil> - 1)))"

definition pow2 :: "int \<Rightarrow> rat" where
  "pow2 k = (if 0 \<le> k then 2 ^ nat k else 1 / 2 ^ nat (- k))"

definition round_half_even :: "rat \<Rightarrow> int" where
  "round_half_even x =
     (let f = \<lfloor>x\<rfloor>; d = x - of_int f
      in if d < 1 / 2 then f else if 1 / 2 < d then f + 1 else if even f then f else f + 1)"

text \<open>
  The double nearest to a rational, ties to the even mantissa (IEEE 754 binary64, the
  rounding of every float operation): 53 binary digits from exponent -1022 upwards,
  multiples of \<^verbatim>\<open>2**-1074\<close> below, and an infinity from halfway between the largest
  double \<^verbatim>\<open>2**1024 - 2**971\<close> and \<^verbatim>\<open>2**1024\<close> on.
\<close>

definition round_double :: "rat \<Rightarrow> pyfloat" where
  "round_double x =
     (if 2 ^ 1024 - 2 ^ 970 \<le> \<bar>x\<bar> then (if 0 < x then PosInf else NegInf)
      else if x = 0 then Finite 0
      else let u = pow2 (max (ilog2 \<bar>x\<bar>) (- 1022) - 52)
           in Finite (of_int (round_half_even (x / u)) * u))"

fun float_plus :: "pyfloat \<Rightarrow> pyfloat \<Rightarrow> pyfloat" where
  "float_plus (Finite a) (Finite b) = round_double (a + b)"
| "float_plus NaN _ = NaN"
| "float_plus _ NaN = NaN"
| "float_plus PosInf NegInf = NaN"
| "float_plus NegInf PosInf = NaN"
| "float_plus PosInf _ = PosInf"
| "float_plus _ PosInf = PosInf"
| "float_plus NegInf _ = NegInf"
| "float_plus _ NegInf = NegInf"

text \<open>\<^verbatim>\<open>a >= b\<close> and \<^verbatim>\<open>a < b\<close> on floats: both are false when either side is NaN.\<close>

fun float_ge :: "pyfloat \<Rightarrow> pyfloat \<Rightarrow> bool" where
  "float_ge NaN _ = False"
| "float_ge _ NaN = False"
| "float_ge PosInf _ = True"
| "float_ge _ NegInf = True"
| "float_ge (Finite a) (Finite b) = (b \<le> a)"
| "float_ge (Finite a) PosInf = False"
| "float_ge NegInf _ = False"

fun float_lt :: "pyfloat \<Rightarrow> pyfloat \<Rightarrow> bool" where
  "float_lt NaN _ = False"
| "float_lt _ NaN = False"
| "float_lt PosInf _ = False"
| "float_lt _ NegInf = False"
| "float_lt (Finite a) (Finite b) = (a < b)"
| "float_lt (Finite a) PosInf = True"
| "float_lt NegInf _ = True"

text \<open>
  The conversion of an integer that \<^verbatim>\<open>float + int\<close> makes first: the nearest double,
  and \<^verbatim>\<open>OverflowError\<close> for an integer that rounds beyond the largest one.
\<close>

definition int_to_float :: "int \<Rightarrow> error + pyfloat" where
  "int_to_float n =
     (case round_double (of_int n) of
        Finite y \<Rightarrow> Inr (Finite y)
      | _ \<Rightarrow> Inl OverflowError)"

text \<open>
  \<^verbatim>\<open>t + x\<close> for the float \<open>t\<close> that \<^verbatim>\<open>time.time()\<close> returned and an unchecked
  \<open>x\<close>: an integer or a boolean is converted and added, a float is added, anything
  else raises \<^verbatim>\<open>TypeError\<close>.
\<close>

fun float_add :: "rat \<Rightarrow> json \<Rightarrow> error + pyfloat" where
  "float_add t (JInt n) =
     (case int_to_float n of Inl err \<Rightarrow> Inl err | Inr y \<Rightarrow> Inr (float_plus (Finite t) y))"
| "float_add t (JBool b) = Inr (float_plus (Finite t) (Finite (if b then 1 else 0)))"
| "float_add t (JFloat y) = Inr (float_plus (Finite t) y)"
| "float_add t _ = Inl TypeError"

text \<open>\<^verbatim>\<open>int(x)\<close> for a float: truncation towards zero.\<close>

definition py_int :: "rat \<Rightarrow> int" where
  "py_int x = (if 0 \<le> x then \<lfloor>x\<rfloor> else \<lceil>x\<rceil>)"

definition digit_char :: "nat \<Rightarrow> char" where
  "digit_char d = ''0123456789'' ! d"

fun str_nat :: "nat \<Rightarrow> string" where
  "str_nat n = (if n < 10 then [digit_char n] else str_nat (n div 10) @ [digit_char (n mod 10)])"

declare str_nat.simps [simp del]

text \<open>\<^verbatim>\<open>str(n)\<close> for an integer, as the f-string of line 199 renders it.\<close>

definition str_int :: "int \<Rightarrow> string" where
  "str_int n = (if n < 0 then CHR ''-'' # str_nat (nat (- n)) else str_nat (nat n))"

definition hex_char :: "nat \<Rightarrow> char" where
  "hex_char d = ''0123456789abcdef'' ! d"

text \<open>\<^verbatim>\<open>bytes.hex()\<close>: two lower-case digits for each byte.\<close>

definition bytes_hex :: "8 word list \<Rightarrow> string" where
  "bytes_hex bs = concat (map (\<lambda>b. [hex_char (unat b div 16), hex_char (unat b mod 16)]) bs)"



section \<open>The HTTP helpers\<close>

definition RD_API_BASE :: string where
  "RD_API_BASE = ''https://api.real-debrid.com/rest/1.0''"

definition RD_OAUTH_BASE :: string where
  "RD_OAUTH_BASE = ''https://api.real-debrid.com/oauth/v2''"

definition DEFAULT_CLIENT_ID :: string where
  "DEFAULT_CLIENT_ID = ''X245A4XAIBGVM''"

definition form_header :: "string \<times> fstring" where
  "form_header = (''Content-Type'', [Text ''application/x-www-form-urlencoded''])"

text \<open>Lines 53-63 of \<^verbatim>\<open>rd_api_request\<close>: what is made of the response.\<close>

definition api_result :: "response \<Rightarrow> error + json" where
  "api_result r =
     (if status_code r = 204 then Inr (JObj [(''success'', JBool True)])
      else case response_json r of
        Inl err \<Rightarrow> Inl err
      | Inr data \<Rightarrow>
          if status_code r \<ge> 400 then
            (case dict_get data ''error'' (JStr ''Unknown error'') of
               Inl err \<Rightarrow> Inl err
             | Inr error_msg \<Rightarrow>
                 (case dict_get data ''error_code'' (JStr ''N/A'') of
                    Inl err \<Rightarrow> Inl err
                  | Inr error_code \<Rightarrow>
                      Inl (Exception [Text ''Real-Debrid API Error: '', Hole error_msg,
                                      Text '' (Code: '', Hole error_code, Text '')''])))
          else Inr data)"

text \<open>Lines 40-51 of \<^verbatim>\<open>rd_api_request\<close>: the request that is sent.\<close>

definition api_request :: "string \<Rightarrow> json \<Rightarrow> string \<Rightarrow> (string \<times> json) list option \<Rightarrow> request" where
  "api_request endpoint access_token method body' =
     (let url = RD_API_BASE @ endpoint;
          headers = [(''Authorization'', [Text ''Bearer '', Hole access_token])]
      in if method = ''GET'' then
           \<lparr>req_method = ''GET'', req_url = url, req_headers = headers, req_content = None\<rparr>
         else
           \<lparr>req_method = method, req_url = url, req_headers = headers @ [form_header],
            req_content = (case body' of None \<Rightarrow> None
                           | Some b \<Rightarrow> if b = [] then None else Some b)\<rparr>)"

definition rd_api_request ::
  "env \<Rightarrow> string \<Rightarrow> json \<Rightarrow> string \<Rightarrow> (string \<times> json) list option \<Rightarrow> world
     \<Rightarrow> (error + json) \<times> world" where
  "rd_api_request e endpoint access_token method body' w =
     (case http_send e (api_request endpoint access_token method body') w of
        (None, w') \<Rightarrow> (Inl HTTPError, w')
      | (Some r, w') \<Rightarrow> (api_result r, w'))"

definition credentials_request :: "string \<Rightarrow> request" where
  "credentials_request device_code =
     \<lparr>req_method = ''GET'',
      req_url = RD_OAUTH_BASE @ ''/device/credentials?client_id='' @ DEFAULT_CLIENT_ID
                  @ ''&code='' @ device_code,
      req_headers = [], req_content = None\<rparr>"

definition get_device_credentials ::
  "env \<Rightarrow> string \<Rightarrow> world \<Rightarrow> (error + credentials option) \<times> world" where
  "get_device_credentials e device_code w =
     (case http_send e (credentials_request device_code) w of
        (None, w') \<Rightarrow> (Inl HTTPError, w')
      | (Some r, w') \<Rightarrow>
          (if status_code r \<noteq> 200 then Inr None
           else case response_json r of
             Inl err \<Rightarrow> Inl err
           | Inr data \<Rightarrow>
               (case subscript data ''client_id'' of
                  Inl err \<Rightarrow> Inl err
                | Inr cid \<Rightarrow>
                    (case subscript data ''client_secret'' of
                       Inl err \<Rightarrow> Inl err
                     | Inr cs \<Rightarrow> Inr (Some \<lparr>cred_clientId = cid, cred_clientSecret = cs\<rparr>))),
           w'))"

text \<open>
  The POST to the token endpoint, shared by \<^verbatim>\<open>get_access_token\<close> and
  \<^verbatim>\<open>refresh_access_token\<close>: both send the same four fields, the code being the
  device code or the refresh token.
\<close>

definition token_request :: "json \<Rightarrow> json \<Rightarrow> json \<Rightarrow> request" where
  "token_request client_id client_secret code =
     \<lparr>req_method = ''POST'', req_url = RD_OAUTH_BASE @ ''/token'',
      req_headers = [form_header],
      req_content = Some [(''client_id'', client_id), (''client_secret'', client_secret),
                          (''code'', code),
                          (''grant_type'', JStr ''http://oauth.net/grant_type/device/1.0'')]\<rparr>"

text \<open>Lines 121-126 and 147-152: the three fields read from the token reply.\<close>

definition read_tokens :: "json \<Rightarrow> error + tokens" where
  "read_tokens data =
     (case subscript data ''access_token'' of
        Inl err \<Rightarrow> Inl err
      | Inr a \<Rightarrow>
          (case subscript data ''refresh_token'' of
             Inl err \<Rightarrow> Inl err
           | Inr r \<Rightarrow>
               (case subscript data ''expires_in'' of
                  Inl err \<Rightarrow> Inl err
                | Inr x \<Rightarrow>
                    Inr \<lparr>tok_accessToken = a, tok_refreshToken = r, tok_expiresIn = x\<rparr>)))"

definition get_access_token ::
  "env \<Rightarrow> json \<Rightarrow> json \<Rightarrow> string \<Rightarrow> world \<Rightarrow> (error + tokens option) \<times> world" where
  "get_access_token e client_id client_secret device_code w =
     (case http_send e (token_request client_id client_secret (JStr device_code)) w of
        (None, w') \<Rightarrow> (Inl HTTPError, w')
      | (Some r, w') \<Rightarrow>
          (if status_code r \<noteq> 200 then Inr None
           else case response_json r of
             Inl err \<Rightarrow> Inl err
           | Inr data \<Rightarrow> map_sum id Some (read_tokens data),
           w'))"

definition refresh_access_token ::
  "env \<Rightarrow> json \<Rightarrow> json \<Rightarrow> json \<Rightarrow> world \<Rightarrow> (error + tokens) \<times> world" where
  "refresh_access_token e client_id client_secret refresh_token w =
     (case http_send e (token_request client_id client_secret refresh_token) w of
        (None, w') \<Rightarrow> (Inl HTTPError, w')
      | (Some r, w') \<Rightarrow>
          (case response_json r of
             Inl err \<Rightarrow> Inl err
           | Inr data \<Rightarrow> read_tokens data,
           w'))"

section \<open>The tools\<close>

subsection \<open>\<^verbatim>\<open>oauth_check\<close>\<close>

definition pending_not_authorized :: json where
  "pending_not_authorized =
     JObj [(''status'', JStr ''pending''),
           (''message'', JStr ''User has not authorized yet. Please complete authorization at real-debrid.com/device'')]"

definition pending_in_progress :: json where
  "pending_in_progress =
     JObj [(''status'', JStr ''pending''),
           (''message'', JStr ''Authorization in progress. Please try again in a few seconds.'')]"

text \<open>Line 199: \<^verbatim>\<open>f"session_{int(time.time())}_{os.urandom(4).hex()}"\<close>.\<close>

definition mint_session_id :: "rat \<Rightarrow> 8 word list \<Rightarrow> string" where
  "mint_session_id t bs = ''session_'' @ str_int (py_int t) @ ''_'' @ bytes_hex bs"

text \<open>
  Lines 198-215. The dictionary display of lines 200-206 reads the clock a second time
  and adds \<^verbatim>\<open>expiresIn\<close> before anything is assigned, so a failing addition leaves
  \<^verbatim>\<open>user_tokens\<close> as it was.
\<close>

definition store_session :: "env \<Rightarrow> credentials \<Rightarrow> tokens \<Rightarrow> world \<Rightarrow> (error + json) \<times> world" where
  "store_session e creds toks w =
     (case time_time e w of (t, w1) \<Rightarrow>
      case os_urandom e 4 w1 of (bs, w2) \<Rightarrow>
      case time_time e w2 of (t', w3) \<Rightarrow>
        let session_id = mint_session_id t bs in
        (case float_add t' (tok_expiresIn toks) of
           Inl err \<Rightarrow> (Inl err, w3)
         | Inr expires_at \<Rightarrow>
             (Inr (JObj [(''status'', JStr ''authorized''),
                         (''session_id'', JStr session_id),
                         (''message'', JStr ''Successfully authorized! Use this session_id for all other tools.''),
                         (''expires_in'', tok_expiresIn toks)]),
              w3\<lparr>user_tokens := (user_tokens w3)(session_id \<mapsto>
                    \<lparr>accessToken = tok_accessToken toks,
                     refreshToken = tok_refreshToken toks,
                     expiresAt = expires_at,
                     clientId = cred_clientId creds,
                     clientSecret = cred_clientSecret creds\<rparr>)\<rparr>)))"

text \<open>
  The tools return \<^verbatim>\<open>json.dumps(result, indent=2)\<close>; the model returns the value
  that is serialised.
\<close>

definition oauth_check :: "env \<Rightarrow> string \<Rightarrow> world \<Rightarrow> (error + json) \<times> world" where
  "oauth_check e device_code w =
     (case get_device_credentials e device_code w of
        (Inl err, w1) \<Rightarrow> (Inl err, w1)
      | (Inr None, w1) \<Rightarrow> (Inr pending_not_authorized, w1)
      | (Inr (Some creds), w1) \<Rightarrow>
          (case get_access_token e (cred_clientId creds) (cred_clientSecret creds) device_code w1 of
             (Inl err, w2) \<Rightarrow> (Inl err, w2)
           | (Inr None, w2) \<Rightarrow> (Inr pending_in_progress, w2)
           | (Inr (Some toks), w2) \<Rightarrow> store_session e creds toks w2))"

subsection \<open>The proxied operations\<close>

text \<open>
  Lines 232-241 of \<^verbatim>\<open>get_user_info\<close>. \<^verbatim>\<open>session\<close> is the dictionary stored in
  \<^verbatim>\<open>user_tokens\<close> itself, not a copy: each of the three assignments changes the
  stored record at once, and line 241 stores the same object again. The result is the
  local \<^verbatim>\<open>session\<close> after the block.
\<close>

definition refresh_if_expired ::
  "env \<Rightarrow> string \<Rightarrow> session \<Rightarrow> world \<Rightarrow> (error + session) \<times> world" where
  "refresh_if_expired e session_id session w =
     (case time_time e w of (t, w1) \<Rightarrow>
        if float_ge (Finite t) (expiresAt session) then
          (case refresh_access_token e (clientId session) (clientSecret session)
                  (refreshToken session) w1 of
             (Inl err, w2) \<Rightarrow> (Inl err, w2)
           | (Inr new_tokens, w2) \<Rightarrow>
               let s1 = session\<lparr>accessToken := tok_accessToken new_tokens\<rparr>;
                   w3 = w2\<lparr>user_tokens := (user_tokens w2)(session_id \<mapsto> s1)\<rparr>;
                   s2 = s1\<lparr>refreshToken := tok_refreshToken new_tokens\<rparr>;
                   w4 = w3\<lparr>user_tokens := (user_tokens w3)(session_id \<mapsto> s2)\<rparr>
               in (case time_time e w4 of (t', w5) \<Rightarrow>
                     (case float_add t' (tok_expiresIn new_tokens) of
                        Inl err \<Rightarrow> (Inl err, w5)
                      | Inr expires_at \<Rightarrow>
                          let s3 = s2\<lparr>expiresAt := expires_at\<rparr>
                          in (Inr s3, w5\<lparr>user_tokens := (user_tokens w5)(session_id \<mapsto> s3)\<rparr>))))
        else (Inr session, w1))"

definition get_user_info :: "env \<Rightarrow> string \<Rightarrow> world \<Rightarrow> (error + json) \<times> world" where
  "get_user_info e session_id w =
     (case user_tokens w session_id of
        None \<Rightarrow>
          (Inl (ToolError ''Invalid session_id. Please authenticate first using oauth_start and oauth_check.''), w)
      | Some session \<Rightarrow>
          (case refresh_if_expired e session_id session w of
             (Inl err, w1) \<Rightarrow> (Inl err, w1)
           | (Inr session', w1) \<Rightarrow>
               rd_api_request e ''/user'' (accessToken session') ''GET'' None w1))"

definition unrestrict_link ::
  "env \<Rightarrow> string \<Rightarrow> string \<Rightarrow> string option \<Rightarrow> world \<Rightarrow> (error + json) \<times> world" where
  "unrestrict_link e session_id link password w =
     (case user_tokens w session_id of
        None \<Rightarrow> (Inl (ToolError ''Invalid session_id. Please authenticate first.''), w)
      | Some session \<Rightarrow>
          (let body' = [(''link'', JStr link)] @
                 (case password of
                    None \<Rightarrow> []
                  | Some p \<Rightarrow> if p \<noteq> [] then [(''password'', JStr p)] else [])
           in rd_api_request e ''/unrestrict/link'' (accessToken session) ''POST'' (Some body') w))"

definition list_torrents ::
  "env \<Rightarrow> string \<Rightarrow> string option \<Rightarrow> world \<Rightarrow> (error + json) \<times> world" where
  "list_torrents e session_id filter' w =
     (case user_tokens w session_id of
        None \<Rightarrow> (Inl (ToolError ''Invalid session_id. Please authenticate first.''), w)
      | Some session \<Rightarrow>
          (let endpoint = ''/torrents'' @
                 (case filter' of
                    None \<Rightarrow> []
                  | Some f \<Rightarrow> if f \<noteq> [] then ''?filter='' @ f else [])
           in rd_api_request e endpoint (accessToken session) ''GET'' None w))"

definition add_magnet :: "env \<Rightarrow> string \<Rightarrow> string \<Rightarrow> world \<Rightarrow> (error + json) \<times> world" where
  "add_magnet e session_id magnet w =
     (case user_tokens w session_id of
        None \<Rightarrow> (Inl (ToolError ''Invalid session_id. Please authenticate first.''), w)
      | Some session \<Rightarrow>
          rd_api_request e ''/torrents/addMagnet'' (accessToken session) ''POST''
            (Some [(''magnet'', JStr magnet)]) w)"

section \<open>Requests in flight at the same time\<close>







definition is_token_request :: "request \<Rightarrow> bool" where
  "is_token_request r \<longleftrightarrow> req_method r = ''POST'' \<and> req_url r = RD_OAUTH_BASE @ ''/token''"


section \<open>Concrete runs\<close>

text \<open>
  A store with one session that expires at time 1000, a remote that answers the token
  endpoint with new tokens and everything else with a profile, and a clock that
  advances by one second at each reading.
\<close>

definition session1 :: session where
  "session1 = \<lparr>accessToken = JStr ''T1'', refreshToken = JStr ''R1'', expiresAt = Finite 1000,
               clientId = JStr ''C1'', clientSecret = JStr ''S1''\<rparr>"

definition world0 :: world where
  "world0 = \<lparr>user_tokens = Map.empty, sent = [], clock_reads = 0, bytes_drawn = 0\<rparr>"

definition world1 :: world where
  "world1 = world0\<lparr>user_tokens := [''s1'' \<mapsto> session1]\<rparr>"

definition profile_reply :: response where
  "profile_reply = \<lparr>status_code = 200, body = Some (JObj [(''id'', JInt 42), (''username'', JStr ''alice'')])\<rparr>"

definition token_reply :: "int \<Rightarrow> json \<Rightarrow> json \<Rightarrow> response" where
  "token_reply status access expires_in =
     \<lparr>status_code = status,
      body = Some (JObj [(''access_token'', access), (''refresh_token'', JStr ''R2''),
                         (''expires_in'', expires_in)])\<rparr>"

definition refreshing_env :: "rat \<Rightarrow> json \<Rightarrow> env" where
  "refreshing_env t expires_in =
     \<lparr>clock = (\<lambda>k. t + of_nat k),
      remote = (\<lambda>h r. if is_token_request r then Some (token_reply 200 (JStr ''T2'') expires_in)
                       else Some profile_reply),
      entropy = (\<lambda>k. 0)\<rparr>"

text \<open>An integer that no double can hold.\<close>

definition beyond_double :: int where
  "beyond_double = 10 ^ 400"

text \<open>A remote that gives every request the same reply.\<close>

definition replying_env :: "response \<Rightarrow> env" where
  "replying_env r = \<lparr>clock = (\<lambda>k. 0), remote = (\<lambda>h q. Some r), entropy = (\<lambda>k. 0)\<rparr>"

definition error_reply :: "int \<Rightarrow> string \<Rightarrow> int \<Rightarrow> response" where
  "error_reply status msg code =
     \<lparr>status_code = status, body = Some (JObj [(''error'', JStr msg), (''error_code'', JInt code)])\<rparr>"

text \<open>
  Two users finish the device flow within the same second (the four clock readings
  are 5, 5.125, 5.25 and 5.375) and \<^verbatim>\<open>os.urandom\<close> hands out the same four bytes to
  both. The token endpoint answers the first exchange with \<open>TA\<close> and the second
  with \<open>TB\<close>, both with the given \<^verbatim>\<open>expires_in\<close>.
\<close>

definition credentials_reply :: response where
  "credentials_reply =
     \<lparr>status_code = 200,
      body = Some (JObj [(''client_id'', JStr ''C1''), (''client_secret'', JStr ''S1'')])\<rparr>"

definition device_flow_env :: "json \<Rightarrow> env" where
  "device_flow_env expires_in =
     \<lparr>clock = (\<lambda>k. 5 + of_nat k / 8),
      remote = (\<lambda>h r. if is_token_request r
                       then Some (token_reply 200 (JStr (if length h < 2 then ''TA'' else ''TB'')) expires_in)
                       else Some credentials_reply),
      entropy = (\<lambda>k. 0)\<rparr>"

definition same_second_env :: env where
  "same_second_env = device_flow_env (JInt 3600)"

definition after_first_user :: world where
  "after_first_user = snd (oauth_check same_second_env ''DEVA'' world0)"

section \<open>Auxiliary facts\<close>

subsection \<open>What each HTTP helper does to the world\<close>

lemma get_device_credentials_world:
  "snd (get_device_credentials e dc w) = w\<lparr>sent := sent w @ [credentials_request dc]\<rparr>"
  by (simp add: get_device_credentials_def http_send_def split: option.split)

lemma get_access_token_world:
  "snd (get_access_token e cid cs dc w) = w\<lparr>sent := sent w @ [token_request cid cs (JStr dc)]\<rparr>"
  by (simp add: get_access_token_def http_send_def split: option.split)

lemma refresh_access_token_world:
  "snd (refresh_access_token e cid cs rt w) = w\<lparr>sent := sent w @ [token_request cid cs rt]\<rparr>"
  by (simp add: refresh_access_token_def http_send_def split: option.split)

lemma rd_api_request_world:
  "snd (rd_api_request e ep tok m b w) = w\<lparr>sent := sent w @ [api_request ep tok m b]\<rparr>"
  by (simp add: rd_api_request_def http_send_def split: option.split)


lemma is_token_request_simps:
  "is_token_request (token_request a b c)"
  "\<not> is_token_request (credentials_request dc)"
  "\<not> is_token_request (api_request ep tok ''GET'' bd)"
  by (simp_all add: is_token_request_def token_request_def credentials_request_def api_request_def)

subsection \<open>Rendering of integers and bytes is injective\<close>

lemma str_nat_digit: "n < 10 \<Longrightarrow> str_nat n = [digit_char n]"
  by (subst str_nat.simps) simp

lemma digit_char_inj: "a < 10 \<Longrightarrow> b < 10 \<Longrightarrow> digit_char a = digit_char b \<Longrightarrow> a = b"
  unfolding digit_char_def
  by (subst (asm) nth_eq_iff_index_eq) simp_all

lemma hex_char_inj: "a < 16 \<Longrightarrow> b < 16 \<Longrightarrow> hex_char a = hex_char b \<Longrightarrow> a = b"
  unfolding hex_char_def
  by (subst (asm) nth_eq_iff_index_eq) simp_all

lemma str_nat_nonempty: "str_nat n \<noteq> []"
  by (subst str_nat.simps) simp

lemma str_nat_length1: "length (str_nat n) = Suc 0 \<longleftrightarrow> n < 10"
proof
  assume "length (str_nat n) = Suc 0"
  show "n < 10"
  proof (rule ccontr)
    assume "\<not> n < 10"
    then have "str_nat n = str_nat (n div 10) @ [digit_char (n mod 10)]"
      by (subst str_nat.simps) simp
    with \<open>length (str_nat n) = Suc 0\<close> show False by (simp add: str_nat_nonempty)
  qed
next
  assume "n < 10" then show "length (str_nat n) = Suc 0" by (simp add: str_nat_digit)
qed

lemma str_nat_inj: "str_nat n = str_nat m \<Longrightarrow> n = m"
proof (induction n arbitrary: m rule: str_nat.induct)
  case (1 n)
  show ?case
  proof (cases "n < 10")
    case True
    then have "length (str_nat m) = Suc 0" using "1.prems" str_nat_length1[of n] by simp
    then have "m < 10" by (simp add: str_nat_length1)
    with True "1.prems" show ?thesis by (simp add: str_nat_digit digit_char_inj)
  next
    case False
    then have m: "\<not> m < 10" using "1.prems" str_nat_length1[of n] str_nat_length1[of m] by simp
    have en: "str_nat n = str_nat (n div 10) @ [digit_char (n mod 10)]"
      using False by (subst str_nat.simps) simp
    have em: "str_nat m = str_nat (m div 10) @ [digit_char (m mod 10)]"
      using m by (subst str_nat.simps) simp
    from "1.prems" en em have a: "str_nat (n div 10) = str_nat (m div 10)"
      and b: "digit_char (n mod 10) = digit_char (m mod 10)" by simp_all
    from "1.IH"[OF False a] have "n div 10 = m div 10" .
    moreover from b have "n mod 10 = m mod 10" by (intro digit_char_inj) simp_all
    ultimately show ?thesis by (metis div_mult_mod_eq)
  qed
qed

lemma str_nat_no_minus: "CHR ''-'' \<notin> set (str_nat n)"
proof (induction n rule: str_nat.induct)
  case (1 n)
  have d: "\<And>k. k < 10 \<Longrightarrow> CHR ''-'' \<noteq> digit_char k"
  proof -
    fix k :: nat assume "k < 10"
    then have "digit_char k \<in> set ''0123456789''" unfolding digit_char_def by (intro nth_mem) simp
    then show "CHR ''-'' \<noteq> digit_char k" by auto
  qed
  show ?case
  proof (cases "n < 10")
    case True then show ?thesis by (simp add: str_nat_digit d)
  next
    case False
    then have "str_nat n = str_nat (n div 10) @ [digit_char (n mod 10)]"
      by (subst str_nat.simps) simp
    with 1 False show ?thesis by (simp add: d)
  qed
qed

lemma str_int_inj: "str_int a = str_int b \<Longrightarrow> a = b"
proof -
  assume h: "str_int a = str_int b"
  have hd: "\<And>n. hd (str_nat n) \<noteq> CHR ''-''"
    using str_nat_no_minus str_nat_nonempty by (metis list.set_sel(1))
  show ?thesis
  proof (cases "a < 0"; cases "b < 0")
    assume "a < 0" "b < 0"
    with h have "nat (- a) = nat (- b)" by (simp add: str_int_def str_nat_inj)
    with \<open>a < 0\<close> \<open>b < 0\<close> show ?thesis by simp
  next
    assume "a < 0" "\<not> b < 0"
    with h have "CHR ''-'' # str_nat (nat (- a)) = str_nat (nat b)" by (simp add: str_int_def)
    then have "hd (str_nat (nat b)) = CHR ''-''" by (metis list.sel(1))
    with hd show ?thesis by simp
  next
    assume "\<not> a < 0" "b < 0"
    with h have "str_nat (nat a) = CHR ''-'' # str_nat (nat (- b))" by (simp add: str_int_def)
    then have "hd (str_nat (nat a)) = CHR ''-''" by (metis list.sel(1))
    with hd show ?thesis by simp
  next
    assume "\<not> a < 0" "\<not> b < 0"
    with h have "nat a = nat b" by (simp add: str_int_def str_nat_inj)
    with \<open>\<not> a < 0\<close> \<open>\<not> b < 0\<close> show ?thesis by simp
  qed
qed

lemma bytes_hex_length: "length (bytes_hex bs) = 2 * length bs"
  by (induction bs) (simp_all add: bytes_hex_def)

lemma hex_byte_inj:
  fixes a b :: "8 word"
  assumes "hex_char (unat a div 16) = hex_char (unat b div 16)"
    and "hex_char (unat a mod 16) = hex_char (unat b mod 16)"
  shows "a = b"
proof -
  have la: "unat a < 256" using unsigned_less[of a] by simp
  have lb: "unat b < 256" using unsigned_less[of b] by simp
  have "unat a div 16 = unat b div 16" using assms(1) la lb by (intro hex_char_inj) simp_all
  moreover have "unat a mod 16 = unat b mod 16" using assms(2) by (intro hex_char_inj) simp_all
  ultimately have "unat a = unat b" by (metis div_mult_mod_eq)
  then show ?thesis by (simp add: word_unat_eq_iff)
qed

lemma bytes_hex_inj: "length bs = length bs' \<Longrightarrow> bytes_hex bs = bytes_hex bs' \<Longrightarrow> bs = bs'"
proof (induction bs bs' rule: list_induct2)
  case Nil then show ?case by simp
next
  case (Cons x xs y ys)
  from Cons.prems have "x = y" by (simp add: bytes_hex_def hex_byte_inj)
  moreover from Cons.prems have "bytes_hex xs = bytes_hex ys" by (simp add: bytes_hex_def)
  ultimately show ?case using Cons.IH by simp
qed

lemma mint_session_id_inj:
  assumes "length bs = length bs'"
  shows "mint_session_id t bs = mint_session_id t' bs' \<longleftrightarrow> py_int t = py_int t' \<and> bs = bs'"
proof
  assume "mint_session_id t bs = mint_session_id t' bs'"
  then have "(str_int (py_int t) @ ''_'') @ bytes_hex bs = (str_int (py_int t') @ ''_'') @ bytes_hex bs'"
    by (simp add: mint_session_id_def)
  moreover have "length (bytes_hex bs) = length (bytes_hex bs')"
    using assms by (simp add: bytes_hex_length)
  ultimately have "str_int (py_int t) @ ''_'' = str_int (py_int t') @ ''_'' \<and> bytes_hex bs = bytes_hex bs'"
    by (metis append_eq_append_conv)
  then show "py_int t = py_int t' \<and> bs = bs'"
    using assms by (simp add: str_int_inj bytes_hex_inj)
next
  assume "py_int t = py_int t' \<and> bs = bs'"
  then show "mint_session_id t bs = mint_session_id t' bs'" by (simp add: mint_session_id_def)
qed

subsection \<open>Floats\<close>

lemma float_lt_not_ge: "float_lt (Finite t) y \<Longrightarrow> \<not> float_ge (Finite t) y"
  by (cases y) simp_all

lemma bit_length_rec:
  "0 < n \<Longrightarrow> bit_length n = Suc (bit_length (n div 2))"
  "bit_length 0 = 0"
  by (subst bit_length.simps, simp)+

lemma floor_numeral_divide:
  "\<lfloor>numeral a / numeral b :: rat\<rfloor> = numeral a div numeral b"
  using floor_divide_of_int_eq [of "numeral a" "numeral b", where ?'a = rat] by simp

lemmas round_double_eval =
  round_double_def ilog2_def bit_length_rec round_half_even_def pow2_def Let_def
  floor_numeral_divide

lemma round_double_examples:
  "round_double 4601 = Finite 4601"
  "round_double 4602 = Finite 4602"
  "round_double 4603 = Finite 4603"
  "round_double (28841 / 8) = Finite (28841 / 8)"
  "round_double (28843 / 8) = Finite (28843 / 8)"
  by (simp_all add: round_double_eval)

lemma int_to_float_3600: "int_to_float 3600 = Inr (Finite 3600)"
  by (simp add: int_to_float_def round_double_eval)

lemma int_to_float_overflow: "int_to_float beyond_double = Inl OverflowError"
  by (simp add: int_to_float_def round_double_def beyond_double_def)

subsection \<open>The path through \<^verbatim>\<open>oauth_check\<close> that stores a session\<close>

lemma store_session_eq:
  "store_session e creds toks w =
     (case float_add (clock e (Suc (clock_reads w))) (tok_expiresIn toks) of
        Inl err \<Rightarrow>
          (Inl err, w\<lparr>clock_reads := Suc (Suc (clock_reads w)), bytes_drawn := bytes_drawn w + 4\<rparr>)
      | Inr x \<Rightarrow>
          (Inr (JObj [(''status'', JStr ''authorized''),
                      (''session_id'', JStr (mint_session_id (clock e (clock_reads w))
                         (map (entropy e) [bytes_drawn w ..< bytes_drawn w + 4]))),
                      (''message'', JStr ''Successfully authorized! Use this session_id for all other tools.''),
                      (''expires_in'', tok_expiresIn toks)]),
           w\<lparr>user_tokens := (user_tokens w)
                 (mint_session_id (clock e (clock_reads w))
                    (map (entropy e) [bytes_drawn w ..< bytes_drawn w + 4]) \<mapsto>
                  \<lparr>accessToken = tok_accessToken toks, refreshToken = tok_refreshToken toks,
                   expiresAt = x, clientId = cred_clientId creds,
                   clientSecret = cred_clientSecret creds\<rparr>),
              clock_reads := Suc (Suc (clock_reads w)), bytes_drawn := bytes_drawn w + 4\<rparr>))"
  by (simp add: store_session_def time_time_def os_urandom_def Let_def split: sum.split)

lemma oauth_check_authorized:
  assumes "oauth_check e device_code w = (Inr result, w')"
    and "subscript result ''status'' = Inr (JStr ''authorized'')"
  shows "\<exists>creds toks.
           get_device_credentials e device_code w =
             (Inr (Some creds), w\<lparr>sent := sent w @ [credentials_request device_code]\<rparr>)
         \<and> get_access_token e (cred_clientId creds) (cred_clientSecret creds) device_code
              (w\<lparr>sent := sent w @ [credentials_request device_code]\<rparr>) =
             (Inr (Some toks),
              w\<lparr>sent := sent w @ [credentials_request device_code,
                    token_request (cred_clientId creds) (cred_clientSecret creds) (JStr device_code)]\<rparr>)
         \<and> store_session e creds toks
             (w\<lparr>sent := sent w @ [credentials_request device_code,
                    token_request (cred_clientId creds) (cred_clientSecret creds) (JStr device_code)]\<rparr>)
           = (Inr result, w')"
proof -
  let ?w1 = "w\<lparr>sent := sent w @ [credentials_request device_code]\<rparr>"
  define r1 where "r1 = fst (get_device_credentials e device_code w)"
  have g1: "get_device_credentials e device_code w = (r1, ?w1)"
    unfolding r1_def using get_device_credentials_world [of e device_code w]
    by (simp add: prod_eq_iff)
  have "\<exists>creds. r1 = Inr (Some creds)"
  proof (cases r1)
    case (Inl err)
    with assms(1) g1 show ?thesis by (simp add: oauth_check_def)
  next
    case (Inr oc)
    show ?thesis
    proof (cases oc)
      case None
      with Inr assms g1 show ?thesis by (auto simp add: oauth_check_def pending_not_authorized_def)
    next
      case (Some c)
      with Inr show ?thesis by simp
    qed
  qed
  then obtain creds where r1: "r1 = Inr (Some creds)" by blast
  let ?q = "token_request (cred_clientId creds) (cred_clientSecret creds) (JStr device_code)"
  let ?w2 = "w\<lparr>sent := sent w @ [credentials_request device_code, ?q]\<rparr>"
  define r2 where "r2 = fst (get_access_token e (cred_clientId creds) (cred_clientSecret creds) device_code ?w1)"
  have g2: "get_access_token e (cred_clientId creds) (cred_clientSecret creds) device_code ?w1 = (r2, ?w2)"
    unfolding r2_def
    using get_access_token_world [of e "cred_clientId creds" "cred_clientSecret creds" device_code ?w1]
    by (simp add: prod_eq_iff)
  have "\<exists>toks. r2 = Inr (Some toks)"
  proof (cases r2)
    case (Inl err)
    with assms(1) g1 r1 g2 show ?thesis by (simp add: oauth_check_def)
  next
    case (Inr ot)
    show ?thesis
    proof (cases ot)
      case None
      with Inr assms g1 r1 g2 show ?thesis by (auto simp add: oauth_check_def pending_in_progress_def)
    next
      case (Some t)
      with Inr show ?thesis by simp
    qed
  qed
  then obtain toks where r2: "r2 = Inr (Some toks)" by blast
  from assms(1) g1 r1 g2 r2 have "store_session e creds toks ?w2 = (Inr result, w')"
    by (simp add: oauth_check_def)
  with g1 r1 g2 r2 show ?thesis by blast
qed

lemma get_device_credentials_SomeD:
  assumes "get_device_credentials e device_code w = (Inr (Some creds), w1)"
  shows "\<exists>r data. remote e (sent w) (credentials_request device_code) = Some r
           \<and> status_code r = 200 \<and> body r = Some data
           \<and> subscript data ''client_id'' = Inr (cred_clientId creds)
           \<and> subscript data ''client_secret'' = Inr (cred_clientSecret creds)"
  using assms
  by (auto simp add: get_device_credentials_def http_send_def response_json_def
      split: option.splits if_splits sum.splits)

lemma get_access_token_SomeD:
  assumes "get_access_token e client_id client_secret device_code w = (Inr (Some toks), w1)"
  shows "\<exists>r data. remote e (sent w) (token_request client_id client_secret (JStr device_code)) = Some r
           \<and> status_code r = 200 \<and> body r = Some data
           \<and> subscript data ''access_token'' = Inr (tok_accessToken toks)
           \<and> subscript data ''refresh_token'' = Inr (tok_refreshToken toks)
           \<and> subscript data ''expires_in'' = Inr (tok_expiresIn toks)"
  using assms
  by (auto simp add: get_access_token_def http_send_def response_json_def read_tokens_def
      split: option.splits if_splits sum.splits)

subsection \<open>Two authorizations within one second\<close>

lemma py_int_same_second: "py_int 5 = 5" "py_int (21 / 4) = 5"
  by (simp_all add: py_int_def floor_numeral_divide)

lemma first_user_run:
  "oauth_check same_second_env ''DEVA'' world0 =
     (Inr (JObj [(''status'', JStr ''authorized''), (''session_id'', JStr ''session_5_00000000''),
                 (''message'', JStr ''Successfully authorized! Use this session_id for all other tools.''),
                 (''expires_in'', JInt 3600)]),
      \<lparr>user_tokens = [''session_5_00000000'' \<mapsto>
          \<lparr>accessToken = JStr ''TA'', refreshToken = JStr ''R2'', expiresAt = Finite (28841 / 8),
           clientId = JStr ''C1'', clientSecret = JStr ''S1''\<rparr>],
       sent = [credentials_request ''DEVA'', token_request (JStr ''C1'') (JStr ''S1'') (JStr ''DEVA'')],
       clock_reads = 2, bytes_drawn = 4\<rparr>)"
  by (simp add: oauth_check_def get_device_credentials_def get_access_token_def http_send_def
      same_second_env_def device_flow_env_def world0_def is_token_request_simps
      credentials_reply_def token_reply_def response_json_def read_tokens_def store_session_def
      time_time_def os_urandom_def mint_session_id_def str_int_def py_int_same_second str_nat_digit
      digit_char_def bytes_hex_def hex_char_def upt_rec Let_def int_to_float_3600
      round_double_examples)

lemma after_first_user_eq:
  "after_first_user =
      \<lparr>user_tokens = [''session_5_00000000'' \<mapsto>
          \<lparr>accessToken = JStr ''TA'', refreshToken = JStr ''R2'', expiresAt = Finite (28841 / 8),
           clientId = JStr ''C1'', clientSecret = JStr ''S1''\<rparr>],
       sent = [credentials_request ''DEVA'', token_request (JStr ''C1'') (JStr ''S1'') (JStr ''DEVA'')],
       clock_reads = 2, bytes_drawn = 4\<rparr>"
  by (simp add: after_first_user_def first_user_run)

lemma second_user_run:
  "oauth_check same_second_env ''DEVB'' after_first_user =
     (Inr (JObj [(''status'', JStr ''authorized''), (''session_id'', JStr ''session_5_00000000''),
                 (''message'', JStr ''Successfully authorized! Use this session_id for all other tools.''),
                 (''expires_in'', JInt 3600)]),
      \<lparr>user_tokens = [''session_5_00000000'' \<mapsto>
          \<lparr>accessToken = JStr ''TB'', refreshToken = JStr ''R2'', expiresAt = Finite (28843 / 8),
           clientId = JStr ''C1'', clientSecret = JStr ''S1''\<rparr>],
       sent = [credentials_request ''DEVA'', token_request (JStr ''C1'') (JStr ''S1'') (JStr ''DEVA''),
               credentials_request ''DEVB'', token_request (JStr ''C1'') (JStr ''S1'') (JStr ''DEVB'')],
       clock_reads = 4, bytes_drawn = 8\<rparr>)"
  by (simp add: after_first_user_eq oauth_check_def get_device_credentials_def get_access_token_def
      http_send_def same_second_env_def device_flow_env_def is_token_request_simps
      credentials_reply_def token_reply_def response_json_def read_tokens_def store_session_def
      time_time_def os_urandom_def mint_session_id_def str_int_def py_int_same_second str_nat_digit
      digit_char_def bytes_hex_def hex_char_def upt_rec Let_def int_to_float_3600
      round_double_examples)

subsection \<open>Schedules\<close>






section \<open>The claims\<close>

text \<open>
  Claim C1 says that every proxied operation refreshes an expired session before it
  calls the remote. Only \<^verbatim>\<open>get_user_info\<close> does. With the session of \<open>world1\<close>
  expired (the clock reads 2000, the token expired at 1000), \<^verbatim>\<open>unrestrict_link\<close>,
  \<^verbatim>\<open>list_torrents\<close> and \<^verbatim>\<open>add_magnet\<close> each send exactly one request, bearing the
  stored token \<open>T1\<close>, and change nothing else; \<^verbatim>\<open>get_user_info\<close> on the same input
  first posts to the token endpoint and then bears the new token \<open>T2\<close>.
\<close>

theorem expired_token_sent_without_refresh:
  "user_tokens world1 ''s1'' = Some session1
   \<and> float_ge (Finite (clock (refreshing_env 2000 (JInt 3600)) (clock_reads world1))) (expiresAt session1)
   \<and> snd (unrestrict_link (refreshing_env 2000 (JInt 3600)) ''s1'' ''https://host/file'' None world1) =
       world1\<lparr>sent := [api_request ''/unrestrict/link'' (JStr ''T1'') ''POST''
                          (Some [(''link'', JStr ''https://host/file'')])]\<rparr>
   \<and> snd (list_torrents (refreshing_env 2000 (JInt 3600)) ''s1'' None world1) =
       world1\<lparr>sent := [api_request ''/torrents'' (JStr ''T1'') ''GET'' None]\<rparr>
   \<and> snd (add_magnet (refreshing_env 2000 (JInt 3600)) ''s1'' ''magnet:?xt=urn:btih:0'' world1) =
       world1\<lparr>sent := [api_request ''/torrents/addMagnet'' (JStr ''T1'') ''POST''
                          (Some [(''magnet'', JStr ''magnet:?xt=urn:btih:0'')])]\<rparr>
   \<and> req_headers (api_request ''/unrestrict/link'' (JStr ''T1'') ''POST''
                          (Some [(''link'', JStr ''https://host/file'')])) =
       [(''Authorization'', [Text ''Bearer '', Hole (JStr ''T1'')]), form_header]
   \<and> sent (snd (get_user_info (refreshing_env 2000 (JInt 3600)) ''s1'' world1)) =
       [token_request (JStr ''C1'') (JStr ''S1'') (JStr ''R1''), api_request ''/user'' (JStr ''T2'') ''GET'' None]"
  by (simp add: unrestrict_link_def list_torrents_def add_magnet_def get_user_info_def
      rd_api_request_world refresh_if_expired_def refresh_access_token_def http_send_def
      time_time_def refreshing_env_def is_token_request_simps token_reply_def response_json_def
      read_tokens_def world1_def world0_def session1_def Let_def api_request_def int_to_float_3600)

text \<open>
  Claim C2. When the session is in the store and the clock reads a time before its
  \<open>expiresAt\<close>, the expiry check of \<^verbatim>\<open>get_user_info\<close> hands back the stored
  record as it is and changes nothing but the count of clock readings; the only request
  \<^verbatim>\<open>get_user_info\<close> sends is the GET of \<^verbatim>\<open>/user\<close> bearing the stored access token
  (so no refresh call is issued), and the store is left as it was.
\<close>

theorem unexpired_token_used_as_stored:
  assumes "user_tokens w session_id = Some s"
    and "float_lt (Finite (clock e (clock_reads w))) (expiresAt s)"
  shows "refresh_if_expired e session_id s w = (Inr s, w\<lparr>clock_reads := Suc (clock_reads w)\<rparr>)
       \<and> sent (snd (get_user_info e session_id w)) =
           sent w @ [api_request ''/user'' (accessToken s) ''GET'' None]
       \<and> req_headers (api_request ''/user'' (accessToken s) ''GET'' None) =
           [(''Authorization'', [Text ''Bearer '', Hole (accessToken s)])]
       \<and> user_tokens (snd (get_user_info e session_id w)) = user_tokens w"
proof -
  have r: "refresh_if_expired e session_id s w = (Inr s, w\<lparr>clock_reads := Suc (clock_reads w)\<rparr>)"
    using float_lt_not_ge [OF assms(2)] by (simp add: refresh_if_expired_def time_time_def)
  have g: "get_user_info e session_id w =
      rd_api_request e ''/user'' (accessToken s) ''GET'' None (w\<lparr>clock_reads := Suc (clock_reads w)\<rparr>)"
    using assms(1) r by (simp add: get_user_info_def)
  show ?thesis
    using r by (simp add: g rd_api_request_world api_request_def)
qed

theorem unexpired_token_used_as_stored_witness:
  "user_tokens world1 ''s1'' = Some session1
   \<and> float_lt (Finite (clock (refreshing_env 990 (JInt 3600)) (clock_reads world1))) (expiresAt session1)
   \<and> refresh_if_expired (refreshing_env 990 (JInt 3600)) ''s1'' session1 world1 =
        (Inr session1, world1\<lparr>clock_reads := 1\<rparr>)
   \<and> sent (snd (get_user_info (refreshing_env 990 (JInt 3600)) ''s1'' world1)) =
        [api_request ''/user'' (JStr ''T1'') ''GET'' None]
   \<and> user_tokens (snd (get_user_info (refreshing_env 990 (JInt 3600)) ''s1'' world1)) =
        user_tokens world1"
proof -
  have h1: "user_tokens world1 ''s1'' = Some session1" by (simp add: world1_def world0_def)
  have h2: "float_lt (Finite (clock (refreshing_env 990 (JInt 3600)) (clock_reads world1))) (expiresAt session1)"
    by (simp add: refreshing_env_def world1_def world0_def session1_def)
  show ?thesis
    using h1 h2 unexpired_token_used_as_stored [OF h1 h2]
    by (simp add: world1_def world0_def session1_def)
qed

text \<open>
  Claim C3 says that a refresh replaces the access token, the refresh token and the
  expiry together, never one without the others. The three assignments of lines
  238-240 act on the stored dictionary one after the other, and the third adds
  \<^verbatim>\<open>expires_in\<close> to the clock, which can raise. With the session of \<open>world1\<close> expired
  and a refresh reply whose \<^verbatim>\<open>expires_in\<close> is the string \<open>3600\<close> (\<^verbatim>\<open>TypeError\<close>) or
  the integer \<open>10 ^ 400\<close> (\<^verbatim>\<open>OverflowError\<close>), \<^verbatim>\<open>get_user_info\<close> raises after both
  tokens have been replaced: the stored record keeps its old \<open>expiresAt\<close> beside the
  new tokens. \<^verbatim>\<open>oauth_check\<close> builds its record before it stores it (lines 200-206):
  the same bad \<^verbatim>\<open>expires_in\<close> leaves the store as it was.
\<close>

theorem refresh_leaves_partial_record:
  "user_tokens world1 ''s1'' = Some session1
   \<and> float_ge (Finite (clock (refreshing_env 1000 (JStr ''3600'')) (clock_reads world1))) (expiresAt session1)
   \<and> get_user_info (refreshing_env 1000 (JStr ''3600'')) ''s1'' world1 =
       (Inl TypeError,
        \<lparr>user_tokens = [''s1'' \<mapsto> session1\<lparr>accessToken := JStr ''T2'', refreshToken := JStr ''R2''\<rparr>],
         sent = [token_request (JStr ''C1'') (JStr ''S1'') (JStr ''R1'')],
         clock_reads = 2, bytes_drawn = 0\<rparr>)
   \<and> get_user_info (refreshing_env 1000 (JInt beyond_double)) ''s1'' world1 =
       (Inl OverflowError,
        \<lparr>user_tokens = [''s1'' \<mapsto> session1\<lparr>accessToken := JStr ''T2'', refreshToken := JStr ''R2''\<rparr>],
         sent = [token_request (JStr ''C1'') (JStr ''S1'') (JStr ''R1'')],
         clock_reads = 2, bytes_drawn = 0\<rparr>)
   \<and> expiresAt (session1\<lparr>accessToken := JStr ''T2'', refreshToken := JStr ''R2''\<rparr>) = expiresAt session1
   \<and> accessToken (session1\<lparr>accessToken := JStr ''T2'', refreshToken := JStr ''R2''\<rparr>) \<noteq> accessToken session1
   \<and> fst (oauth_check (device_flow_env (JStr ''3600'')) ''DEVA'' world1) = Inl TypeError
   \<and> user_tokens (snd (oauth_check (device_flow_env (JStr ''3600'')) ''DEVA'' world1)) = user_tokens world1"
  by (simp add: get_user_info_def refresh_if_expired_def refresh_access_token_def http_send_def
      time_time_def refreshing_env_def is_token_request_simps token_reply_def response_json_def
      read_tokens_def world1_def world0_def session1_def Let_def int_to_float_overflow
      oauth_check_def get_device_credentials_def get_access_token_def device_flow_env_def
      credentials_reply_def store_session_def os_urandom_def)

text \<open>
  Claim C4. When the reply to the credentials poll has any status other than 200,
  \<^verbatim>\<open>oauth_check\<close> returns the pending result, which has status \<open>pending\<close> and no
  \<open>session_id\<close>; the call sends that one request and leaves the store unchanged, for
  every device code.
\<close>

theorem oauth_check_pending_on_non_200:
  assumes "remote e (sent w) (credentials_request device_code) = Some r"
    and "status_code r \<noteq> 200"
  shows "oauth_check e device_code w =
           (Inr pending_not_authorized, w\<lparr>sent := sent w @ [credentials_request device_code]\<rparr>)
       \<and> subscript pending_not_authorized ''status'' = Inr (JStr ''pending'')
       \<and> subscript pending_not_authorized ''session_id'' = Inl (KeyError ''session_id'')
       \<and> user_tokens (snd (oauth_check e device_code w)) = user_tokens w"
proof -
  have "get_device_credentials e device_code w =
          (Inr None, w\<lparr>sent := sent w @ [credentials_request device_code]\<rparr>)"
    using assms by (simp add: get_device_credentials_def http_send_def)
  then have "oauth_check e device_code w =
          (Inr pending_not_authorized, w\<lparr>sent := sent w @ [credentials_request device_code]\<rparr>)"
    by (simp add: oauth_check_def)
  then show ?thesis by (simp add: pending_not_authorized_def)
qed

theorem oauth_check_pending_on_non_200_witness:
  "remote (replying_env (error_reply 403 ''action_pending'' 0)) (sent world1) (credentials_request ''DEV1'')
     = Some (error_reply 403 ''action_pending'' 0)
   \<and> status_code (error_reply 403 ''action_pending'' 0) \<noteq> 200
   \<and> oauth_check (replying_env (error_reply 403 ''action_pending'' 0)) ''DEV1'' world1 =
        (Inr pending_not_authorized, world1\<lparr>sent := [credentials_request ''DEV1'']\<rparr>)
   \<and> user_tokens (snd (oauth_check (replying_env (error_reply 403 ''action_pending'' 0)) ''DEV1'' world1)) =
        user_tokens world1"
proof -
  have h1: "remote (replying_env (error_reply 403 ''action_pending'' 0)) (sent world1) (credentials_request ''DEV1'')
     = Some (error_reply 403 ''action_pending'' 0)" by (simp add: replying_env_def)
  have h2: "status_code (error_reply 403 ''action_pending'' 0) \<noteq> 200" by (simp add: error_reply_def)
  show ?thesis
    using h1 h2 oauth_check_pending_on_non_200 [OF h1 h2]
    by (simp add: world1_def world0_def)
qed

text \<open>
  Claim C5. For a session id that is not in the store, each of the four proxied
  operations raises \<open>ToolError\<close> with a message telling the caller to authenticate
  first, and returns the world it was given: no request is sent and the store is
  unchanged.
\<close>

theorem unknown_session_rejected:
  assumes "user_tokens w session_id = None"
  shows "get_user_info e session_id w =
           (Inl (ToolError ''Invalid session_id. Please authenticate first using oauth_start and oauth_check.''), w)
       \<and> unrestrict_link e session_id link password w =
           (Inl (ToolError ''Invalid session_id. Please authenticate first.''), w)
       \<and> list_torrents e session_id filter' w =
           (Inl (ToolError ''Invalid session_id. Please authenticate first.''), w)
       \<and> add_magnet e session_id magnet w =
           (Inl (ToolError ''Invalid session_id. Please authenticate first.''), w)"
  using assms
  by (simp add: get_user_info_def unrestrict_link_def list_torrents_def add_magnet_def)

theorem unknown_session_rejected_witness:
  "user_tokens world1 ''s2'' = None
   \<and> get_user_info (refreshing_env 2000 (JInt 3600)) ''s2'' world1 =
           (Inl (ToolError ''Invalid session_id. Please authenticate first using oauth_start and oauth_check.''), world1)
   \<and> unrestrict_link (refreshing_env 2000 (JInt 3600)) ''s2'' ''https://host/file'' (Some ''pw'') world1 =
           (Inl (ToolError ''Invalid session_id. Please authenticate first.''), world1)
   \<and> list_torrents (refreshing_env 2000 (JInt 3600)) ''s2'' (Some ''active'') world1 =
           (Inl (ToolError ''Invalid session_id. Please authenticate first.''), world1)
   \<and> add_magnet (refreshing_env 2000 (JInt 3600)) ''s2'' ''magnet:?xt=urn:btih:0'' world1 =
           (Inl (ToolError ''Invalid session_id. Please authenticate first.''), world1)
   \<and> sent world1 = []"
proof -
  have h: "user_tokens world1 ''s2'' = None" by (simp add: world1_def world0_def)
  show ?thesis
    using h unknown_session_rejected [OF h, of "refreshing_env 2000 (JInt 3600)" "''https://host/file''"
        "Some ''pw''" "Some ''active''" "''magnet:?xt=urn:btih:0''"]
    by (simp add: world1_def world0_def)
qed




text \<open>
  Claim C7 says that a rejected refresh fails with the remote's message and code.
  \<^verbatim>\<open>refresh_access_token\<close> looks neither at the status nor for an error payload: on
  the reply 400 \<open>{error: invalid_grant, error_code: 9}\<close> it raises
  \<open>KeyError\<close> for the missing \<^verbatim>\<open>access_token\<close>, where \<^verbatim>\<open>rd_api_request\<close> turns the
  same reply into the exception that carries both values; and a reply with status 400
  that has the three token fields is taken as a success.
\<close>

theorem refresh_rejection_raises_key_error:
  "refresh_access_token (replying_env (error_reply 400 ''invalid_grant'' 9))
       (JStr ''C1'') (JStr ''S1'') (JStr ''R1'') world1 =
     (Inl (KeyError ''access_token''),
      world1\<lparr>sent := [token_request (JStr ''C1'') (JStr ''S1'') (JStr ''R1'')]\<rparr>)
   \<and> fst (rd_api_request (replying_env (error_reply 400 ''invalid_grant'' 9)) ''/user'' (JStr ''T1'')
            ''GET'' None world1) =
       Inl (Exception [Text ''Real-Debrid API Error: '', Hole (JStr ''invalid_grant''),
                       Text '' (Code: '', Hole (JInt 9), Text '')''])
   \<and> fst (refresh_access_token (replying_env (token_reply 400 (JStr ''T2'') (JInt 3600)))
            (JStr ''C1'') (JStr ''S1'') (JStr ''R1'') world1) =
       Inr \<lparr>tok_accessToken = JStr ''T2'', tok_refreshToken = JStr ''R2'', tok_expiresIn = JInt 3600\<rparr>"
  by (simp add: refresh_access_token_def rd_api_request_def http_send_def replying_env_def
      error_reply_def token_reply_def response_json_def read_tokens_def api_result_def
      world1_def world0_def)

text \<open>
  Claim C8 as stated fails: the session id is made of the whole second of the clock and
  four random bytes, and nothing compares it with the ids in the store. Two users who
  finish the device flow in the same second and draw the same bytes get the same id;
  the second record replaces the first and the store holds one record for two
  authorizations.
\<close>

theorem session_id_collision_counterexample:
  "fst (oauth_check same_second_env ''DEVB'' after_first_user) =
     Inr (JObj [(''status'', JStr ''authorized''), (''session_id'', JStr ''session_5_00000000''),
                (''message'', JStr ''Successfully authorized! Use this session_id for all other tools.''),
                (''expires_in'', JInt 3600)])
   \<and> ''session_5_00000000'' \<in> dom (user_tokens after_first_user)
   \<and> map_option accessToken (user_tokens after_first_user ''session_5_00000000'') = Some (JStr ''TA'')
   \<and> map_option accessToken
        (user_tokens (snd (oauth_check same_second_env ''DEVB'' after_first_user)) ''session_5_00000000'')
      = Some (JStr ''TB'')
   \<and> dom (user_tokens (snd (oauth_check same_second_env ''DEVB'' after_first_user))) = {''session_5_00000000''}"
  by (simp add: second_user_run) (simp add: after_first_user_eq)

text \<open>
  Claim C8, amended. When \<^verbatim>\<open>oauth_check\<close> returns status \<open>authorized\<close>, both
  replies were accepted and the result and the new world are these: the session id
  returned is \<open>session_\<close>, the whole second of the first clock reading, \<open>_\<close> and the
  hexadecimal form of the next four random bytes; the store is the old store with the
  record made of the new tokens, the expiry and the client credentials put under that
  id, whether or not the id was there before, so every other record is unchanged; and
  an id minted at time \<open>t\<close> from four bytes \<open>bs\<close> equals it exactly when \<open>t\<close>
  lies in the same whole second and \<open>bs\<close> are the same four bytes.
\<close>

theorem minted_session_id_unique_up_to_second_and_bytes:
  assumes "oauth_check e device_code w = (Inr result, w')"
    and "subscript result ''status'' = Inr (JStr ''authorized'')"
  shows "(\<exists>r1 d1 client_id client_secret r2 d2 access_token refresh_token expires_in expires_at.
           remote e (sent w) (credentials_request device_code) = Some r1
         \<and> status_code r1 = 200 \<and> body r1 = Some d1
         \<and> subscript d1 ''client_id'' = Inr client_id
         \<and> subscript d1 ''client_secret'' = Inr client_secret
         \<and> remote e (sent w @ [credentials_request device_code])
              (token_request client_id client_secret (JStr device_code)) = Some r2
         \<and> status_code r2 = 200 \<and> body r2 = Some d2
         \<and> subscript d2 ''access_token'' = Inr access_token
         \<and> subscript d2 ''refresh_token'' = Inr refresh_token
         \<and> subscript d2 ''expires_in'' = Inr expires_in
         \<and> float_add (clock e (Suc (clock_reads w))) expires_in = Inr expires_at
         \<and> result =
             JObj [(''status'', JStr ''authorized''),
                   (''session_id'', JStr (mint_session_id (clock e (clock_reads w))
                       (map (entropy e) [bytes_drawn w ..< bytes_drawn w + 4]))),
                   (''message'', JStr ''Successfully authorized! Use this session_id for all other tools.''),
                   (''expires_in'', expires_in)]
         \<and> w' =
             w\<lparr>user_tokens := (user_tokens w)
                   (mint_session_id (clock e (clock_reads w))
                      (map (entropy e) [bytes_drawn w ..< bytes_drawn w + 4]) \<mapsto>
                    \<lparr>accessToken = access_token, refreshToken = refresh_token,
                     expiresAt = expires_at, clientId = client_id,
                     clientSecret = client_secret\<rparr>),
               sent := sent w @ [credentials_request device_code,
                     token_request client_id client_secret (JStr device_code)],
               clock_reads := Suc (Suc (clock_reads w)), bytes_drawn := bytes_drawn w + 4\<rparr>)
       \<and> (\<forall>t bs. length bs = 4 \<longrightarrow>
             (mint_session_id t bs = mint_session_id (clock e (clock_reads w))
                        (map (entropy e) [bytes_drawn w ..< bytes_drawn w + 4])
              \<longleftrightarrow> py_int t = py_int (clock e (clock_reads w))
                  \<and> bs = map (entropy e) [bytes_drawn w ..< bytes_drawn w + 4]))"
proof -
  from oauth_check_authorized [OF assms] obtain creds toks where
    g1: "get_device_credentials e device_code w =
             (Inr (Some creds), w\<lparr>sent := sent w @ [credentials_request device_code]\<rparr>)"
    and g2: "get_access_token e (cred_clientId creds) (cred_clientSecret creds) device_code
              (w\<lparr>sent := sent w @ [credentials_request device_code]\<rparr>) =
             (Inr (Some toks),
              w\<lparr>sent := sent w @ [credentials_request device_code,
                    token_request (cred_clientId creds) (cred_clientSecret creds) (JStr device_code)]\<rparr>)"
    and st: "store_session e creds toks
             (w\<lparr>sent := sent w @ [credentials_request device_code,
                    token_request (cred_clientId creds) (cred_clientSecret creds) (JStr device_code)]\<rparr>)
           = (Inr result, w')"
    by blast
  from get_device_credentials_SomeD [OF g1] obtain r1 d1 where
    c: "remote e (sent w) (credentials_request device_code) = Some r1"
       "status_code r1 = 200" "body r1 = Some d1"
       "subscript d1 ''client_id'' = Inr (cred_clientId creds)"
       "subscript d1 ''client_secret'' = Inr (cred_clientSecret creds)"
    by blast
  from get_access_token_SomeD [OF g2] obtain r2 d2 where
    k: "remote e (sent w @ [credentials_request device_code])
          (token_request (cred_clientId creds) (cred_clientSecret creds) (JStr device_code)) = Some r2"
       "status_code r2 = 200" "body r2 = Some d2"
       "subscript d2 ''access_token'' = Inr (tok_accessToken toks)"
       "subscript d2 ''refresh_token'' = Inr (tok_refreshToken toks)"
       "subscript d2 ''expires_in'' = Inr (tok_expiresIn toks)"
    by auto
  obtain expires_at where
    fa: "float_add (clock e (Suc (clock_reads w))) (tok_expiresIn toks) = Inr expires_at"
    using st by (cases "float_add (clock e (Suc (clock_reads w))) (tok_expiresIn toks)")
      (simp_all add: store_session_eq)
  from st fa have r: "result =
             JObj [(''status'', JStr ''authorized''),
                   (''session_id'', JStr (mint_session_id (clock e (clock_reads w))
                       (map (entropy e) [bytes_drawn w ..< bytes_drawn w + 4]))),
                   (''message'', JStr ''Successfully authorized! Use this session_id for all other tools.''),
                   (''expires_in'', tok_expiresIn toks)]"
    and w': "w' =
             w\<lparr>user_tokens := (user_tokens w)
                   (mint_session_id (clock e (clock_reads w))
                      (map (entropy e) [bytes_drawn w ..< bytes_drawn w + 4]) \<mapsto>
                    \<lparr>accessToken = tok_accessToken toks, refreshToken = tok_refreshToken toks,
                     expiresAt = expires_at, clientId = cred_clientId creds,
                     clientSecret = cred_clientSecret creds\<rparr>),
               sent := sent w @ [credentials_request device_code,
                     token_request (cred_clientId creds) (cred_clientSecret creds) (JStr device_code)],
               clock_reads := Suc (Suc (clock_reads w)), bytes_drawn := bytes_drawn w + 4\<rparr>"
    by (auto simp add: store_session_eq)
  have inj: "\<forall>t bs. length bs = 4 \<longrightarrow>
             (mint_session_id t bs = mint_session_id (clock e (clock_reads w))
                        (map (entropy e) [bytes_drawn w ..< bytes_drawn w + 4])
              \<longleftrightarrow> py_int t = py_int (clock e (clock_reads w))
                  \<and> bs = map (entropy e) [bytes_drawn w ..< bytes_drawn w + 4])"
    by (simp add: mint_session_id_inj)
  have "\<exists>r1 d1 client_id client_secret r2 d2 access_token refresh_token expires_in expires_at.
           remote e (sent w) (credentials_request device_code) = Some r1
         \<and> status_code r1 = 200 \<and> body r1 = Some d1
         \<and> subscript d1 ''client_id'' = Inr client_id
         \<and> subscript d1 ''client_secret'' = Inr client_secret
         \<and> remote e (sent w @ [credentials_request device_code])
              (token_request client_id client_secret (JStr device_code)) = Some r2
         \<and> status_code r2 = 200 \<and> body r2 = Some d2
         \<and> subscript d2 ''access_token'' = Inr access_token
         \<and> subscript d2 ''refresh_token'' = Inr refresh_token
         \<and> subscript d2 ''expires_in'' = Inr expires_in
         \<and> float_add (clock e (Suc (clock_reads w))) expires_in = Inr expires_at
         \<and> result =
             JObj [(''status'', JStr ''authorized''),
                   (''session_id'', JStr (mint_session_id (clock e (clock_reads w))
                       (map (entropy e) [bytes_drawn w ..< bytes_drawn w + 4]))),
                   (''message'', JStr ''Successfully authorized! Use this session_id for all other tools.''),
                   (''expires_in'', expires_in)]
         \<and> w' =
             w\<lparr>user_tokens := (user_tokens w)
                   (mint_session_id (clock e (clock_reads w))
                      (map (entropy e) [bytes_drawn w ..< bytes_drawn w + 4]) \<mapsto>
                    \<lparr>accessToken = access_token, refreshToken = refresh_token,
                     expiresAt = expires_at, clientId = client_id,
                     clientSecret = client_secret\<rparr>),
               sent := sent w @ [credentials_request device_code,
                     token_request client_id client_secret (JStr device_code)],
               clock_reads := Suc (Suc (clock_reads w)), bytes_drawn := bytes_drawn w + 4\<rparr>"
    apply (rule exI [of _ r1], rule exI [of _ d1])
    apply (rule exI [of _ "cred_clientId creds"], rule exI [of _ "cred_clientSecret creds"])
    apply (rule exI [of _ r2], rule exI [of _ d2])
    apply (rule exI [of _ "tok_accessToken toks"], rule exI [of _ "tok_refreshToken toks"])
    apply (rule exI [of _ "tok_expiresIn toks"], rule exI [of _ expires_at])
    using c k fa r w' apply simp
    done
  with inj show ?thesis by blast
qed

theorem minted_session_id_unique_up_to_second_and_bytes_witness:
  "oauth_check same_second_env ''DEVB'' after_first_user =
     (Inr (JObj [(''status'', JStr ''authorized''), (''session_id'', JStr ''session_5_00000000''),
                 (''message'', JStr ''Successfully authorized! Use this session_id for all other tools.''),
                 (''expires_in'', JInt 3600)]),
      \<lparr>user_tokens = [''session_5_00000000'' \<mapsto>
          \<lparr>accessToken = JStr ''TB'', refreshToken = JStr ''R2'', expiresAt = Finite (28843 / 8),
           clientId = JStr ''C1'', clientSecret = JStr ''S1''\<rparr>],
       sent = [credentials_request ''DEVA'', token_request (JStr ''C1'') (JStr ''S1'') (JStr ''DEVA''),
               credentials_request ''DEVB'', token_request (JStr ''C1'') (JStr ''S1'') (JStr ''DEVB'')],
       clock_reads = 4, bytes_drawn = 8\<rparr>)
   \<and> mint_session_id (clock same_second_env (clock_reads after_first_user))
        (map (entropy same_second_env) [bytes_drawn after_first_user ..< bytes_drawn after_first_user + 4])
       = ''session_5_00000000''
   \<and> mint_session_id 6 [0, 0, 0, 0] \<noteq> ''session_5_00000000''
   \<and> mint_session_id 5 [0, 0, 0, 1] \<noteq> ''session_5_00000000''
   \<and> mint_session_id 5 [0, 0, 0, 0] = ''session_5_00000000''"
proof -
  let ?res = "JObj [(''status'', JStr ''authorized''), (''session_id'', JStr ''session_5_00000000''),
                 (''message'', JStr ''Successfully authorized! Use this session_id for all other tools.''),
                 (''expires_in'', JInt 3600)]"
  let ?w = "\<lparr>user_tokens = [''session_5_00000000'' \<mapsto>
          \<lparr>accessToken = JStr ''TB'', refreshToken = JStr ''R2'', expiresAt = Finite (28843 / 8),
           clientId = JStr ''C1'', clientSecret = JStr ''S1''\<rparr>],
       sent = [credentials_request ''DEVA'', token_request (JStr ''C1'') (JStr ''S1'') (JStr ''DEVA''),
               credentials_request ''DEVB'', token_request (JStr ''C1'') (JStr ''S1'') (JStr ''DEVB'')],
       clock_reads = 4, bytes_drawn = 8\<rparr>"
  let ?sid = "mint_session_id (clock same_second_env (clock_reads after_first_user))
        (map (entropy same_second_env) [bytes_drawn after_first_user ..< bytes_drawn after_first_user + 4])"
  have h1: "oauth_check same_second_env ''DEVB'' after_first_user = (Inr ?res, ?w)"
    by (rule second_user_run)
  have h2: "subscript ?res ''status'' = Inr (JStr ''authorized'')" by simp
  have c: "py_int (clock same_second_env (clock_reads after_first_user)) = 5"
      "map (entropy same_second_env) [bytes_drawn after_first_user ..< bytes_drawn after_first_user + 4]
         = [0, 0, 0, 0]"
    by (simp_all add: same_second_env_def device_flow_env_def after_first_user_eq py_int_same_second
        upt_rec)
  note t = minted_session_id_unique_up_to_second_and_bytes [OF h1 h2]
  from t have m: "?sid = ''session_5_00000000''" by auto
  from t have i: "\<And>t bs. length bs = 4 \<Longrightarrow>
      (mint_session_id t bs = ?sid) = (py_int t = py_int (clock same_second_env (clock_reads after_first_user))
         \<and> bs = map (entropy same_second_env) [bytes_drawn after_first_user ..< bytes_drawn after_first_user + 4])"
    by blast
  have p: "py_int 6 = 6" by (simp add: py_int_def)
  have i1: "mint_session_id 6 [0, 0, 0, 0] \<noteq> ?sid"
    using i [of "[0, 0, 0, 0]" 6] p unfolding c by simp
  have i2: "mint_session_id 5 [0, 0, 0, 1] \<noteq> ?sid"
    using i [of "[0, 0, 0, 1]" 5] unfolding c by simp
  have i3: "mint_session_id 5 [0, 0, 0, 0] = ?sid"
    using i [of "[0, 0, 0, 0]" 5] unfolding c by (simp add: py_int_same_second)
  show ?thesis
    using h1 m i1 i2 i3 unfolding m by blast
qed




text \<open>
  Claim C10. \<^verbatim>\<open>unrestrict_link\<close> with the empty string as password does exactly what
  it does with no password: for a stored session the request sent has the body
  \<open>{link}\<close> alone, without a \<open>password\<close> field.
\<close>

theorem unrestrict_link_empty_password:
  "unrestrict_link e session_id link (Some '''') w = unrestrict_link e session_id link None w
   \<and> (\<forall>s. user_tokens w session_id = Some s \<longrightarrow>
        sent (snd (unrestrict_link e session_id link (Some '''') w)) =
          sent w @ [api_request ''/unrestrict/link'' (accessToken s) ''POST'' (Some [(''link'', JStr link)])]
        \<and> req_content (api_request ''/unrestrict/link'' (accessToken s) ''POST'' (Some [(''link'', JStr link)]))
            = Some [(''link'', JStr link)])"
  by (cases "user_tokens w session_id")
     (simp_all add: unrestrict_link_def rd_api_request_world api_request_def)

theorem unrestrict_link_empty_password_witness:
  "user_tokens world1 ''s1'' = Some session1
   \<and> sent (snd (unrestrict_link (replying_env profile_reply) ''s1'' ''https://host/file'' (Some '''') world1)) =
       [api_request ''/unrestrict/link'' (JStr ''T1'') ''POST'' (Some [(''link'', JStr ''https://host/file'')])]
   \<and> sent (snd (unrestrict_link (replying_env profile_reply) ''s1'' ''https://host/file'' None world1)) =
       [api_request ''/unrestrict/link'' (JStr ''T1'') ''POST'' (Some [(''link'', JStr ''https://host/file'')])]
   \<and> sent (snd (unrestrict_link (replying_env profile_reply) ''s1'' ''https://host/file'' (Some ''pw'') world1)) =
       [api_request ''/unrestrict/link'' (JStr ''T1'') ''POST''
          (Some [(''link'', JStr ''https://host/file''), (''password'', JStr ''pw'')])]"
proof -
  have h: "user_tokens world1 ''s1'' = Some session1" by (simp add: world1_def world0_def)
  have p: "sent (snd (unrestrict_link (replying_env profile_reply) ''s1'' ''https://host/file'' (Some ''pw'') world1)) =
       [api_request ''/unrestrict/link'' (JStr ''T1'') ''POST''
          (Some [(''link'', JStr ''https://host/file''), (''password'', JStr ''pw'')])]"
    by (simp add: unrestrict_link_def rd_api_request_world world1_def world0_def session1_def)
  note t = unrestrict_link_empty_password [of "replying_env profile_reply" "''s1''" "''https://host/file''" world1]
  from t h have a: "sent (snd (unrestrict_link (replying_env profile_reply) ''s1'' ''https://host/file'' (Some '''') world1)) =
      sent world1 @ [api_request ''/unrestrict/link'' (accessToken session1) ''POST'' (Some [(''link'', JStr ''https://host/file'')])]"
    by blast
  from t a have b: "sent (snd (unrestrict_link (replying_env profile_reply) ''s1'' ''https://host/file'' None world1)) =
      sent world1 @ [api_request ''/unrestrict/link'' (accessToken session1) ''POST'' (Some [(''link'', JStr ''https://host/file'')])]"
    by simp
  have c: "sent world1 = []" "accessToken session1 = JStr ''T1''"
    by (simp_all add: world1_def world0_def session1_def)
  show ?thesis
    using h p a b unfolding c by simp
qed

end
